theory Spec2Isabelle
  imports Complex_Main "HOL-Library.Word" "HOL-Library.Multiset"
begin

unbundle bit_operations_syntax

section \<open>The random number engine: \<^verbatim>\<open>std::mt19937\<close>\<close>

text \<open>
  The tutorial \<^verbatim>\<open>df041_ThreadSafeRNG.C\<close> consists of calls into the C++ standard
  library. The engine \<^verbatim>\<open>std::mt19937\<close> is
  \<^verbatim>\<open>mersenne_twister_engine<uint_fast32_t, 32, 624, 397, 31, 0x9908b0df, 11,
  0xffffffff, 7, 0x9d2c5680, 15, 0xefc60000, 18, 1812433253>\<close>, whose behaviour the C++
  standard fixes bit for bit. Its state is the sequence \<open>X\<close> of the last \<open>n = 624\<close>
  words of \<open>w = 32\<close> bits, oldest first.
\<close>

type_synonym u32 = "32 word"
type_synonym u64 = "64 word"
type_synonym mt19937 = "u32 list"

text \<open>
  \<^verbatim>\<open>seed(value)\<close>: the first word is \<open>value mod 2^32\<close>, and each further word is
  \<open>1812433253 * (prev xor (prev >> 30)) + i\<close> modulo \<open>2^32\<close>, for \<open>i = 1 .. 623\<close>.
\<close>

fun seed_fill :: "nat \<Rightarrow> nat \<Rightarrow> u32 \<Rightarrow> u32 list" where
  "seed_fill 0 i prev = []"
| "seed_fill (Suc k) i prev =
     (let x = 1812433253 * (prev XOR drop_bit 30 prev) + of_nat i
      in x # seed_fill k (Suc i) x)"

definition mt19937_seed :: "u32 \<Rightarrow> mt19937" where
  "mt19937_seed v = v # seed_fill 623 1 v"

text \<open>\<^verbatim>\<open>mt19937::default_seed\<close>, used by the default constructor.\<close>

definition default_seed :: u32 where
  "default_seed = 5489"

text \<open>
  The seed parameter has type \<^verbatim>\<open>result_type\<close> (\<^verbatim>\<open>uint_fast32_t\<close>); the tutorial passes
  an \<^verbatim>\<open>unsigned long long\<close> entry number. Whatever the width of \<^verbatim>\<open>uint_fast32_t\<close>,
  seeding keeps \<open>value mod 2^32\<close>.
\<close>

definition seed_of_entry :: "u64 \<Rightarrow> u32" where
  "seed_of_entry entry = ucast entry"

text \<open>The tempering of one output word (\<open>u = 11\<close>, \<open>s = 7\<close>, \<open>t = 15\<close>, \<open>l = 18\<close>).\<close>

definition temper :: "u32 \<Rightarrow> u32" where
  "temper x =
     (let z1 = x XOR (drop_bit 11 x AND 0xffffffff);
          z2 = z1 XOR (push_bit 7 z1 AND 0x9d2c5680);
          z3 = z2 XOR (push_bit 15 z2 AND 0xefc60000)
      in z3 XOR drop_bit 18 z3)"

text \<open>
  \<^verbatim>\<open>operator()\<close>: the transition computes the next word from the words \<open>n\<close>, \<open>n - 1\<close>
  and \<open>n - m\<close> positions back (\<open>m = 397\<close>, the upper bit of the first and the lower
  \<open>r = 31\<close> bits of the second), appends it, drops the oldest word, and returns the new
  word tempered.
\<close>

definition mt19937_next :: "mt19937 \<Rightarrow> u32 \<times> mt19937" where
  "mt19937_next xs =
     (let y = (xs ! 0 AND 0x80000000) OR (xs ! 1 AND 0x7fffffff);
          al = 0x9908b0df * (y AND 1);
          xi = xs ! 397 XOR drop_bit 1 y XOR al
      in (temper xi, tl xs @ [xi]))"

section \<open>The distribution: \<^verbatim>\<open>std::normal_distribution<double>\<close>\<close>

text \<open>
  The arithmetic on \<^verbatim>\<open>double\<close> is a parameter of the model: a type \<open>'r\<close> of values and
  the operations the sampler uses. Every theorem below that is stated for an arbitrary
  \<open>fp\<close> therefore holds whatever the floating-point operations compute.
  \<open>canonical a b\<close> stands for \<^verbatim>\<open>generate_canonical<double, 53>\<close> applied to two
  successive engine outputs \<open>a\<close>, \<open>b\<close> (\<open>k = 2\<close> calls for a 32-bit engine).
\<close>

record 'r double_ops =
  canonical :: "u32 \<Rightarrow> u32 \<Rightarrow> 'r"
  d_lit :: "int \<Rightarrow> 'r"
  d_add :: "'r \<Rightarrow> 'r \<Rightarrow> 'r"
  d_sub :: "'r \<Rightarrow> 'r \<Rightarrow> 'r"
  d_mul :: "'r \<Rightarrow> 'r \<Rightarrow> 'r"
  d_div :: "'r \<Rightarrow> 'r \<Rightarrow> 'r"
  d_gt :: "'r \<Rightarrow> 'r \<Rightarrow> bool"
  d_eq :: "'r \<Rightarrow> 'r \<Rightarrow> bool"
  d_sqrt :: "'r \<Rightarrow> 'r"
  d_log :: "'r \<Rightarrow> 'r"

text \<open>
  The same operations in exact real arithmetic (no rounding), used wherever a theorem
  needs concrete values.
\<close>

definition exact_ops :: "real double_ops" where
  "exact_ops =
     \<lparr>canonical = (\<lambda>a b. (real_of_int (uint a) + real_of_int (uint b) * 2 ^ 32) / 2 ^ 64),
      d_lit = real_of_int,
      d_add = (+), d_sub = (-), d_mul = (*), d_div = (/),
      d_gt = (\<lambda>a b. a > b), d_eq = (=),
      d_sqrt = sqrt, d_log = ln\<rparr>"

text \<open>
  The distribution object as libstdc++ (and, with other field names, libc++) lays it
  out: the two parameters, and the second value of the last polar pair with the flag
  that says whether it is still to be handed out.
\<close>

record 'r normal_distribution =
  nd_mean :: 'r
  nd_stddev :: 'r
  nd_saved :: 'r
  nd_saved_available :: bool

definition normal_distribution_new :: "'r double_ops \<Rightarrow> 'r \<Rightarrow> 'r \<Rightarrow> 'r normal_distribution" where
  "normal_distribution_new fp m s =
     \<lparr>nd_mean = m, nd_stddev = s, nd_saved = d_lit fp 0, nd_saved_available = False\<rparr>"

text \<open>\<^verbatim>\<open>reset()\<close> clears the flag and nothing else.\<close>

definition nd_reset :: "'r normal_distribution \<Rightarrow> 'r normal_distribution" where
  "nd_reset d = d\<lparr>nd_saved_available := False\<rparr>"

text \<open>One uniform value in \<open>[0, 1)\<close>: two engine outputs.\<close>

definition aurng :: "'r double_ops \<Rightarrow> mt19937 \<Rightarrow> 'r \<times> mt19937" where
  "aurng fp g =
     (case mt19937_next g of (a, g1) \<Rightarrow>
      case mt19937_next g1 of (b, g2) \<Rightarrow> (canonical fp a b, g2))"

text \<open>
  The rejection loop of the polar method:
  \<^verbatim>\<open>do { x = 2.0 * aurng() - 1.0; y = 2.0 * aurng() - 1.0; r2 = x * x + y * y; }
  while (r2 > 1.0 || r2 == 0.0);\<close>
  It has no bound on the number of rounds: not returning is the value \<open>None\<close>.
\<close>

partial_function (option) polar_loop ::
  "'r double_ops \<Rightarrow> mt19937 \<Rightarrow> ('r \<times> 'r \<times> 'r \<times> mt19937) option" where
  "polar_loop fp g =
     (case aurng fp g of (u1, g1) \<Rightarrow>
      case aurng fp g1 of (u2, g2) \<Rightarrow>
        let x = d_sub fp (d_mul fp (d_lit fp 2) u1) (d_lit fp 1);
            y = d_sub fp (d_mul fp (d_lit fp 2) u2) (d_lit fp 1);
            r2 = d_add fp (d_mul fp x x) (d_mul fp y y)
        in if d_gt fp r2 (d_lit fp 1) \<or> d_eq fp r2 (d_lit fp 0)
           then polar_loop fp g2
           else Some (x, y, r2, g2))"

declare polar_loop.simps [code]

text \<open>\<^verbatim>\<open>ret * stddev + mean\<close>, the last step of every draw.\<close>

definition nd_scale :: "'r double_ops \<Rightarrow> 'r normal_distribution \<Rightarrow> 'r \<Rightarrow> 'r" where
  "nd_scale fp d ret = d_add fp (d_mul fp ret (nd_stddev d)) (nd_mean d)"

text \<open>
  \<^verbatim>\<open>operator()(urng)\<close>: a saved value is handed out without touching the engine;
  otherwise a polar pair is drawn, \<open>x * mult\<close> is saved and \<open>y * mult\<close> returned, with
  \<open>mult = sqrt(-2 * log(r2) / r2)\<close>.
\<close>

definition nd_call ::
  "'r double_ops \<Rightarrow> 'r normal_distribution \<Rightarrow> mt19937 \<Rightarrow>
     ('r \<times> 'r normal_distribution \<times> mt19937) option" where
  "nd_call fp d g =
     (if nd_saved_available d
      then Some (nd_scale fp d (nd_saved d), d\<lparr>nd_saved_available := False\<rparr>, g)
      else case polar_loop fp g of
             None \<Rightarrow> None
           | Some (x, y, r2, g') \<Rightarrow>
               let mult = d_sqrt fp (d_div fp (d_mul fp (d_lit fp (- 2)) (d_log fp r2)) r2)
               in Some (nd_scale fp d (d_mul fp y mult),
                        d\<lparr>nd_saved := d_mul fp x mult, nd_saved_available := True\<rparr>,
                        g'))"

section \<open>The tutorial's functions\<close>

text \<open>
  A generator with its distribution: the two globals \<^verbatim>\<open>globalGenerator\<close> and
  \<^verbatim>\<open>globalGaus\<close>, or the \<^verbatim>\<open>thread_local\<close> pair of one thread. A \<^verbatim>\<open>thread_local\<close>
  pair that its thread has not initialised yet is \<open>None\<close>.
\<close>

record 'r rng_state =
  generator :: mt19937
  gaus :: "'r normal_distribution"

text \<open>\<^verbatim>\<open>return gaus(generator);\<close> on a pair, with the pair updated.\<close>

definition draw :: "'r double_ops \<Rightarrow> 'r rng_state \<Rightarrow> ('r \<times> 'r rng_state) option" where
  "draw fp s =
     (case nd_call fp (gaus s) (generator s) of
        None \<Rightarrow> None
      | Some (v, d, g) \<Rightarrow> Some (v, \<lparr>generator = g, gaus = d\<rparr>))"

text \<open>
  \<^verbatim>\<open>std::mt19937 g(rd()); std::normal_distribution<double> gaus(0., 1.);\<close> where \<open>e\<close>
  is the number the \<^verbatim>\<open>std::random_device\<close> returns.
\<close>

definition seeded_state :: "'r double_ops \<Rightarrow> u32 \<Rightarrow> 'r rng_state" where
  "seeded_state fp e =
     \<lparr>generator = mt19937_seed e,
      gaus = normal_distribution_new fp (d_lit fp 0) (d_lit fp 1)\<rparr>"

text \<open>
  \<^verbatim>\<open>double GetGlobalNormallyDistributedNumber()\<close> (\<^verbatim>\<open>GetGlobalRNG\<close> in the first
  version of the file): a draw from the globals, which are initialised before the
  macro runs, \<open>seeded_state fp e\<close> for the device's number \<open>e\<close>.
\<close>

definition GetGlobalNormallyDistributedNumber ::
  "'r double_ops \<Rightarrow> 'r rng_state \<Rightarrow> ('r \<times> 'r rng_state) option" where
  "GetGlobalNormallyDistributedNumber fp glob = draw fp glob"

text \<open>
  \<^verbatim>\<open>double GetNormallyDistributedNumber()\<close>: the \<^verbatim>\<open>thread_local\<close> pair is initialised
  from the thread's \<^verbatim>\<open>random_device\<close> the first time the thread gets here; \<open>rd\<close> is the
  number the device returns then.
\<close>

definition GetNormallyDistributedNumber ::
  "'r double_ops \<Rightarrow> u32 \<Rightarrow> 'r rng_state option \<Rightarrow> ('r \<times> 'r rng_state option) option" where
  "GetNormallyDistributedNumber fp rd tls =
     (let s = (case tls of None \<Rightarrow> seeded_state fp rd | Some s \<Rightarrow> s)
      in case draw fp s of None \<Rightarrow> None | Some (v, s') \<Rightarrow> Some (v, Some s'))"

text \<open>
  \<^verbatim>\<open>double GetThreadSafeRNG(unsigned int slot)\<close>, the first version of the same
  function, called through \<^verbatim>\<open>DefineSlot\<close>.
\<close>

definition GetThreadSafeRNG ::
  "'r double_ops \<Rightarrow> u32 \<Rightarrow> u32 \<Rightarrow> 'r rng_state option \<Rightarrow> ('r \<times> 'r rng_state option) option" where
  "GetThreadSafeRNG fp rd slot tls =
     (let s = (case tls of None \<Rightarrow> seeded_state fp rd | Some s \<Rightarrow> s)
      in case draw fp s of None \<Rightarrow> None | Some (v, s') \<Rightarrow> Some (v, Some s'))"

text \<open>
  \<^verbatim>\<open>double GetNormallyDistributedNumberForEntry(unsigned long long entry)\<close> of
  \<^verbatim>\<open>df041_ThreadSafeRNG.C\<close>: a default-constructed \<^verbatim>\<open>thread_local\<close> engine and
  distribution, then \<^verbatim>\<open>gaus.reset(); generator.seed(entry); return gaus(generator);\<close>
\<close>

definition GetNormallyDistributedNumberForEntry ::
  "'r double_ops \<Rightarrow> 'r rng_state option \<Rightarrow> u64 \<Rightarrow> ('r \<times> 'r rng_state option) option" where
  "GetNormallyDistributedNumberForEntry fp tls entry =
     (let s = (case tls of None \<Rightarrow> seeded_state fp default_seed | Some s \<Rightarrow> s);
          s1 = s\<lparr>gaus := nd_reset (gaus s)\<rparr>;
          s2 = s1\<lparr>generator := mt19937_seed (seed_of_entry entry)\<rparr>
      in case draw fp s2 of None \<Rightarrow> None | Some (v, s') \<Rightarrow> Some (v, Some s'))"

text \<open>
  The other version of the same function (the second source file): both objects are
  locals, \<^verbatim>\<open>std::mt19937 generator(entry); std::normal_distribution<double> gaus(0., 1.);
  return gaus(generator);\<close>, and nothing outlives the call.
\<close>

definition GetNormallyDistributedNumberForEntry_local ::
  "'r double_ops \<Rightarrow> u64 \<Rightarrow> 'r option" where
  "GetNormallyDistributedNumberForEntry_local fp entry =
     map_option fst (draw fp (seeded_state fp (seed_of_entry entry)))"

text \<open>
  The same function with the line \<^verbatim>\<open>gaus.reset();\<close> taken out: the variant the
  comment in the source warns against. It is not in the repository; it is stated here
  to say what the call to \<^verbatim>\<open>reset\<close> is for.
\<close>

definition GetNormallyDistributedNumberForEntry_without_reset ::
  "'r double_ops \<Rightarrow> 'r rng_state option \<Rightarrow> u64 \<Rightarrow> ('r \<times> 'r rng_state option) option" where
  "GetNormallyDistributedNumberForEntry_without_reset fp tls entry =
     (let s = (case tls of None \<Rightarrow> seeded_state fp default_seed | Some s \<Rightarrow> s);
          s2 = s\<lparr>generator := mt19937_seed (seed_of_entry entry)\<rparr>
      in case draw fp s2 of None \<Rightarrow> None | Some (v, s') \<Rightarrow> Some (v, Some s'))"

text \<open>
  The same function with the two calls exchanged, \<^verbatim>\<open>generator.seed(entry);
  gaus.reset();\<close>. It is not in the repository either; it is stated to say whether the
  order of the two calls matters.
\<close>

definition GetNormallyDistributedNumberForEntry_seed_then_reset ::
  "'r double_ops \<Rightarrow> 'r rng_state option \<Rightarrow> u64 \<Rightarrow> ('r \<times> 'r rng_state option) option" where
  "GetNormallyDistributedNumberForEntry_seed_then_reset fp tls entry =
     (let s = (case tls of None \<Rightarrow> seeded_state fp default_seed | Some s \<Rightarrow> s);
          s1 = s\<lparr>generator := mt19937_seed (seed_of_entry entry)\<rparr>;
          s2 = s1\<lparr>gaus := nd_reset (gaus s1)\<rparr>
      in case draw fp s2 of None \<Rightarrow> None | Some (v, s') \<Rightarrow> Some (v, Some s'))"

section \<open>Threads and passes over the entries\<close>

text \<open>
  The objects a thread can hold: the distribution was constructed as \<^verbatim>\<open>gaus(0., 1.)\<close>
  and nothing in the program changes its parameters.
\<close>

definition std_normal :: "'r double_ops \<Rightarrow> 'r normal_distribution \<Rightarrow> bool" where
  "std_normal fp d \<longleftrightarrow> nd_mean d = d_lit fp 0 \<and> nd_stddev d = d_lit fp 1"

definition tls_ok :: "'r double_ops \<Rightarrow> 'r rng_state option \<Rightarrow> bool" where
  "tls_ok fp tls = (case tls of None \<Rightarrow> True | Some s \<Rightarrow> std_normal fp (gaus s))"

text \<open>
  A thread whose distribution holds no saved value: one that has not drawn yet, or
  whose last draw handed the saved value out.
\<close>

definition tls_cold :: "'r rng_state option \<Rightarrow> bool" where
  "tls_cold tls = (case tls of None \<Rightarrow> True | Some s \<Rightarrow> \<not> nd_saved_available (gaus s))"

text \<open>
  What \<^verbatim>\<open>RDataFrame(n).Define("x", f, {"rdfentry_"})\<close> does on one thread: \<open>f\<close> is called
  for the entries the thread gets, in the order it gets them, on the thread's own
  \<^verbatim>\<open>thread_local\<close> objects; each value is filed under its entry number.
\<close>

fun for_each_entry ::
  "('s \<Rightarrow> u64 \<Rightarrow> ('r \<times> 's) option) \<Rightarrow> 's \<Rightarrow> u64 list \<Rightarrow> ((u64 \<times> 'r) list \<times> 's) option" where
  "for_each_entry f st [] = Some ([], st)"
| "for_each_entry f st (e # es) =
     (case f st e of
        None \<Rightarrow> None
      | Some (v, st') \<Rightarrow>
          (case for_each_entry f st' es of
             None \<Rightarrow> None
           | Some (rs, st'') \<Rightarrow> Some ((e, v) # rs, st'')))"

text \<open>
  A run with several threads: each thread is given by the state of its
  \<^verbatim>\<open>thread_local\<close> objects when the run starts and by the entries it processes. The
  threads share nothing, so the values of a run are the values of its threads.
\<close>

fun run_workers ::
  "('s \<Rightarrow> u64 \<Rightarrow> ('r \<times> 's) option) \<Rightarrow> ('s \<times> u64 list) list \<Rightarrow> (u64 \<times> 'r) list option" where
  "run_workers f [] = Some []"
| "run_workers f ((st, q) # ws) =
     (case for_each_entry f st q of
        None \<Rightarrow> None
      | Some (rs, st') \<Rightarrow> map_option ((@) rs) (run_workers f ws))"

text \<open>The entries of a run, thread after thread.\<close>

definition entries_of :: "('s \<times> u64 list) list \<Rightarrow> u64 list" where
  "entries_of ws = concat (map snd ws)"

section \<open>Auxiliary notions for concrete draws\<close>

text \<open>The first \<open>n\<close> outputs of an engine.\<close>

fun engine_outputs :: "nat \<Rightarrow> mt19937 \<Rightarrow> u32 list" where
  "engine_outputs 0 g = []"
| "engine_outputs (Suc n) g = fst (mt19937_next g) # engine_outputs n (snd (mt19937_next g))"

text \<open>
  \<^verbatim>\<open>2.0 * aurng() - 1.0\<close> in exact arithmetic, for the two engine outputs \<open>a\<close>, \<open>b\<close> that
  the call consumes.
\<close>

definition polar_x :: "u32 \<Rightarrow> u32 \<Rightarrow> real" where
  "polar_x a b = 2 * ((real_of_int (uint a) + real_of_int (uint b) * 2 ^ 32) / 2 ^ 64) - 1"

section \<open>Engine states have 624 words\<close>

text \<open>
  Seeding fills all 624 words for every seed and a call of the engine keeps the
  length, so the positions 0, 1 and 397 that \<open>mt19937_next\<close> reads exist in every state
  the program constructs.
\<close>

lemma length_seed_fill: "length (seed_fill k i prev) = k"
  by (induction k arbitrary: i prev) (simp_all add: Let_def)

lemma length_mt19937_seed: "length (mt19937_seed v) = 624"
  by (simp add: mt19937_seed_def length_seed_fill)

lemma length_mt19937_next:
  assumes "length xs = 624"
  shows "length (snd (mt19937_next xs)) = 624"
  using assms by (simp add: mt19937_next_def Let_def)

section \<open>Properties of one draw\<close>

lemma draw_cold:
  assumes "\<not> nd_saved_available (gaus s)"
  shows "draw fp s =
     (case polar_loop fp (generator s) of
        None \<Rightarrow> None
      | Some (x, y, r2, g') \<Rightarrow>
          let mult = d_sqrt fp (d_div fp (d_mul fp (d_lit fp (- 2)) (d_log fp r2)) r2)
          in Some (nd_scale fp (gaus s) (d_mul fp y mult),
                   \<lparr>generator = g',
                    gaus = (gaus s)\<lparr>nd_saved := d_mul fp x mult, nd_saved_available := True\<rparr>\<rparr>))"
  using assms by (simp add: draw_def nd_call_def Let_def split: option.splits)

lemma draw_hot:
  assumes "nd_saved_available (gaus s)"
  shows "draw fp s =
     Some (nd_scale fp (gaus s) (nd_saved (gaus s)),
           \<lparr>generator = generator s, gaus = (gaus s)\<lparr>nd_saved_available := False\<rparr>\<rparr>)"
  using assms by (simp add: draw_def nd_call_def)

lemma draw_leaves_saved:
  assumes "draw fp s = Some (v, s')" "\<not> nd_saved_available (gaus s)"
  shows "nd_saved_available (gaus s')"
  using assms(1) unfolding draw_cold [OF assms(2)]
  by (auto simp: Let_def split: option.splits)

lemma draw_keeps_params:
  assumes "draw fp s = Some (v, s')" "std_normal fp (gaus s)"
  shows "std_normal fp (gaus s')"
  using assms
  by (auto simp: draw_def nd_call_def std_normal_def Let_def split: if_splits option.splits)

lemma seeded_state_reseed:
  "(seeded_state fp e)\<lparr>generator := mt19937_seed e'\<rparr> = seeded_state fp e'"
  by (simp add: seeded_state_def)

lemma seeded_state_cold: "\<not> nd_saved_available (gaus (seeded_state fp e))"
  by (simp add: seeded_state_def normal_distribution_new_def)

lemma seeded_state_std: "std_normal fp (gaus (seeded_state fp e))"
  by (simp add: seeded_state_def normal_distribution_new_def std_normal_def)

text \<open>
  With no saved value, the value drawn depends on the engine and the parameters only:
  it is the value a newly constructed distribution draws from the same engine.
\<close>

lemma draw_value_cold:
  assumes "\<not> nd_saved_available (gaus s)" "std_normal fp (gaus s)"
  shows "map_option fst (draw fp s) =
         map_option fst (draw fp (seeded_state fp e\<lparr>generator := generator s\<rparr>))"
proof -
  have c: "\<not> nd_saved_available (gaus (seeded_state fp e\<lparr>generator := generator s\<rparr>))"
    by (simp add: seeded_state_def normal_distribution_new_def)
  have sc: "nd_scale fp (gaus s) = nd_scale fp (gaus (seeded_state fp e\<lparr>generator := generator s\<rparr>))"
    using assms(2)
    by (simp add: fun_eq_iff nd_scale_def std_normal_def seeded_state_def normal_distribution_new_def)
  show ?thesis
    unfolding draw_cold [OF assms(1)] draw_cold [OF c] sc
    by (simp add: Let_def split: option.splits)
qed

section \<open>The per-entry function and its thread's state\<close>

lemma entry_value_local:
  assumes "tls_ok fp tls"
  shows "map_option fst (GetNormallyDistributedNumberForEntry fp tls entry) =
         GetNormallyDistributedNumberForEntry_local fp entry"
proof -
  define s where "s = (case tls of None \<Rightarrow> seeded_state fp default_seed | Some s \<Rightarrow> s)"
  define s2 where
    "s2 = s\<lparr>gaus := nd_reset (gaus s), generator := mt19937_seed (seed_of_entry entry)\<rparr>"
  have ok: "std_normal fp (gaus s)"
    using assms
    by (simp add: s_def tls_ok_def std_normal_def seeded_state_def normal_distribution_new_def
        split: option.splits)
  have "\<not> nd_saved_available (gaus s2)" "std_normal fp (gaus s2)"
    using ok by (simp_all add: s2_def nd_reset_def std_normal_def)
  from draw_value_cold [OF this, of "seed_of_entry entry"]
  have "map_option fst (draw fp s2) =
        map_option fst (draw fp (seeded_state fp (seed_of_entry entry)))"
    by (simp add: s2_def seeded_state_def)
  moreover have "map_option fst (GetNormallyDistributedNumberForEntry fp tls entry) =
        map_option fst (draw fp s2)"
    by (simp add: GetNormallyDistributedNumberForEntry_def s_def s2_def Let_def
        split: option.splits)
  ultimately show ?thesis
    by (simp add: GetNormallyDistributedNumberForEntry_local_def)
qed

lemma entry_keeps_ok:
  assumes "GetNormallyDistributedNumberForEntry fp tls entry = Some (v, tls')" "tls_ok fp tls"
  shows "tls_ok fp tls'"
proof -
  define s where "s = (case tls of None \<Rightarrow> seeded_state fp default_seed | Some s \<Rightarrow> s)"
  define s2 where
    "s2 = s\<lparr>gaus := nd_reset (gaus s), generator := mt19937_seed (seed_of_entry entry)\<rparr>"
  have ok: "std_normal fp (gaus s2)"
    using assms(2)
    by (simp add: s2_def s_def tls_ok_def std_normal_def seeded_state_def nd_reset_def
        normal_distribution_new_def split: option.splits)
  from assms(1) obtain s' where "draw fp s2 = Some (v, s')" "tls' = Some s'"
    by (auto simp: GetNormallyDistributedNumberForEntry_def s_def s2_def Let_def
        split: option.splits)
  with draw_keeps_params [OF _ ok] show ?thesis
    by (simp add: tls_ok_def)
qed

lemma for_each_entry_results:
  assumes "tls_ok fp tls"
  shows "map_option fst (for_each_entry (GetNormallyDistributedNumberForEntry fp) tls ids) =
         those (map (\<lambda>i. map_option (Pair i) (GetNormallyDistributedNumberForEntry_local fp i)) ids)"
  using assms
proof (induction ids arbitrary: tls)
  case Nil
  then show ?case by simp
next
  case (Cons e es)
  show ?case
  proof (cases "GetNormallyDistributedNumberForEntry fp tls e")
    case None
    with entry_value_local [OF Cons.prems, of e]
    have "GetNormallyDistributedNumberForEntry_local fp e = None" by simp
    with None show ?thesis by simp
  next
    case (Some p)
    obtain v t1 where p: "p = (v, t1)" by (cases p)
    from entry_value_local [OF Cons.prems, of e] Some p
    have l: "GetNormallyDistributedNumberForEntry_local fp e = Some v" by simp
    from Some p have c: "GetNormallyDistributedNumberForEntry fp tls e = Some (v, t1)" by simp
    from Cons.IH [OF entry_keeps_ok [OF c Cons.prems], symmetric] c l show ?thesis
      by (cases "for_each_entry (GetNormallyDistributedNumberForEntry fp) t1 es") auto
  qed
qed

lemma those_map_Some:
  assumes "those (map (\<lambda>i. map_option (Pair i) (f i)) ids) = Some rs"
  shows "rs = map (\<lambda>i. (i, the (f i))) ids"
  using assms
proof (induction ids arbitrary: rs)
  case Nil
  then show ?case by simp
next
  case (Cons e es)
  then show ?case by (auto split: option.splits)
qed

lemma run_workers_values:
  assumes "run_workers (GetNormallyDistributedNumberForEntry fp) ws = Some rs"
    and "\<forall>w \<in> set ws. tls_ok fp (fst w)"
  shows "rs = map (\<lambda>i. (i, the (GetNormallyDistributedNumberForEntry_local fp i))) (entries_of ws)"
  using assms
proof (induction ws arbitrary: rs)
  case Nil
  then show ?case by (simp add: entries_of_def)
next
  case (Cons w ws)
  obtain st q where w: "w = (st, q)" by (cases w)
  from Cons.prems(1) w obtain r1 t1 r2 where
    a: "for_each_entry (GetNormallyDistributedNumberForEntry fp) st q = Some (r1, t1)" and
    b: "run_workers (GetNormallyDistributedNumberForEntry fp) ws = Some r2" and
    c: "rs = r1 @ r2"
    by (auto split: option.splits)
  have ok: "tls_ok fp st" using Cons.prems(2) w by simp
  from for_each_entry_results [OF ok, of q] a
  have "those (map (\<lambda>i. map_option (Pair i) (GetNormallyDistributedNumberForEntry_local fp i)) q) = Some r1"
    by simp
  from those_map_Some [OF this] Cons.IH [OF b] Cons.prems(2) c w show ?case
    by (simp add: entries_of_def)
qed

lemma seed_of_entry_mod:
  "seed_of_entry e1 = seed_of_entry e2 \<longleftrightarrow> unat e1 mod 2 ^ 32 = unat e2 mod 2 ^ 32"
  by (simp add: seed_of_entry_def word_unat_eq_iff unsigned_ucast_eq take_bit_eq_mod)

lemma entry_returns:
  assumes "tls_ok fp tls" "GetNormallyDistributedNumberForEntry_local fp entry = Some v"
  shows "\<exists>tls'. GetNormallyDistributedNumberForEntry fp tls entry = Some (v, tls')"
  using entry_value_local [OF assms(1), of entry] assms(2) by auto

section \<open>Concrete draws in exact arithmetic\<close>

lemma polar_loop_first_round:
  assumes "engine_outputs 4 g = [a, b, c, d]"
  shows "polar_loop fp g =
     (let x = d_sub fp (d_mul fp (d_lit fp 2) (canonical fp a b)) (d_lit fp 1);
          y = d_sub fp (d_mul fp (d_lit fp 2) (canonical fp c d)) (d_lit fp 1);
          r2 = d_add fp (d_mul fp x x) (d_mul fp y y);
          g' = snd (mt19937_next (snd (mt19937_next (snd (mt19937_next (snd (mt19937_next g)))))))
      in if d_gt fp r2 (d_lit fp 1) \<or> d_eq fp r2 (d_lit fp 0) then polar_loop fp g' else Some (x, y, r2, g'))"
  using assms
  by (subst polar_loop.simps) (simp add: aurng_def split_beta numeral_eq_Suc Let_def)

lemma exact_ops_sel:
  "canonical exact_ops a b = (real_of_int (uint a) + real_of_int (uint b) * 2 ^ 32) / 2 ^ 64"
  "d_lit exact_ops i = real_of_int i"
  "d_add exact_ops u v = u + v"
  "d_sub exact_ops u v = u - v"
  "d_mul exact_ops u v = u * v"
  "d_div exact_ops u v = u / v"
  "d_gt exact_ops u v \<longleftrightarrow> v < u"
  "d_eq exact_ops u v \<longleftrightarrow> u = v"
  "d_sqrt exact_ops u = sqrt u"
  "d_log exact_ops u = ln u"
  by (simp_all add: exact_ops_def)

lemma exact_polar_accept:
  assumes o: "engine_outputs 4 g = [a, b, c, d]"
    and r: "0 < polar_x a b * polar_x a b + polar_x c d * polar_x c d"
           "polar_x a b * polar_x a b + polar_x c d * polar_x c d \<le> 1"
  shows "\<exists>g'. polar_loop exact_ops g =
           Some (polar_x a b, polar_x c d, polar_x a b * polar_x a b + polar_x c d * polar_x c d, g')"
proof -
  have x: "d_sub exact_ops (d_mul exact_ops (d_lit exact_ops 2) (canonical exact_ops u v))
             (d_lit exact_ops 1) = polar_x u v" for u v
    by (simp only: exact_ops_sel polar_x_def of_int_numeral of_int_1)
  from r show ?thesis
    unfolding polar_loop_first_round [OF o] Let_def x
    by (simp only: exact_ops_sel of_int_0 of_int_1) auto
qed

lemma exact_mult_pos:
  assumes "0 < r" "r < 1"
  shows "0 < sqrt (- 2 * ln r / r)"
proof -
  have "ln r < 0" using assms by simp
  then have "0 < - 2 * ln r" by simp
  then have "0 < (- 2 * ln r) / r" using assms(1) by (rule divide_pos_pos)
  then show ?thesis by (simp only: real_sqrt_gt_zero)
qed

lemma exact_scale:
  assumes "std_normal exact_ops d"
  shows "nd_scale exact_ops d r = r"
  using assms by (simp add: nd_scale_def std_normal_def exact_ops_sel)

lemma exact_first_draw:
  assumes o: "engine_outputs 4 (mt19937_seed e) = [a, b, c, d]"
    and r: "0 < polar_x a b * polar_x a b + polar_x c d * polar_x c d"
           "polar_x a b * polar_x a b + polar_x c d * polar_x c d < 1"
  shows "\<exists>m s. 0 < m \<and> draw exact_ops (seeded_state exact_ops e) = Some (polar_x c d * m, s) \<and>
           nd_saved_available (gaus s) \<and> nd_saved (gaus s) = polar_x a b * m \<and>
           std_normal exact_ops (gaus s)"
proof -
  define r2 where "r2 = polar_x a b * polar_x a b + polar_x c d * polar_x c d"
  from exact_polar_accept [OF o] r obtain g' where
    p: "polar_loop exact_ops (mt19937_seed e) = Some (polar_x a b, polar_x c d, r2, g')"
    unfolding r2_def by force
  have g: "generator (seeded_state exact_ops e) = mt19937_seed e"
    by (simp add: seeded_state_def)
  define m where "m = sqrt (- 2 * ln r2 / r2)"
  have m: "0 < m"
    using exact_mult_pos r unfolding r2_def m_def by blast
  have "draw exact_ops (seeded_state exact_ops e) =
      Some (polar_x c d * m,
        \<lparr>generator = g',
         gaus = (gaus (seeded_state exact_ops e))
           \<lparr>nd_saved := polar_x a b * m, nd_saved_available := True\<rparr>\<rparr>)"
    unfolding draw_cold [OF seeded_state_cold] g p m_def
    by (simp add: Let_def exact_scale [OF seeded_state_std] exact_ops_sel)
  moreover have "std_normal exact_ops ((gaus (seeded_state exact_ops e))
           \<lparr>nd_saved := polar_x a b * m, nd_saved_available := True\<rparr>)"
    using seeded_state_std [of exact_ops e] by (simp add: std_normal_def)
  ultimately show ?thesis using m
    by (intro exI [of _ m] exI [of _ "\<lparr>generator = g',
         gaus = (gaus (seeded_state exact_ops e))
           \<lparr>nd_saved := polar_x a b * m, nd_saved_available := True\<rparr>\<rparr>"]) simp
qed

lemma seed0_outputs:
  "engine_outputs 4 (mt19937_seed 0) = [2357136044, 2546248239, 3071714933, 3626093760]"
  by code_simp

lemma seed7_outputs:
  "engine_outputs 4 (mt19937_seed 7) = [327741615, 976413892, 3349725721, 1369975286]"
  by code_simp

lemma seed5489_outputs:
  "engine_outputs 4 (mt19937_seed 5489) = [3499211612, 581869302, 3890346734, 3586334585]"
  by code_simp

lemma draw_seed0:
  "\<exists>v s. draw exact_ops (seeded_state exact_ops 0) = Some (v, s) \<and> 0 < v \<and>
      nd_saved_available (gaus s) \<and> 0 < nd_saved (gaus s) \<and> std_normal exact_ops (gaus s)"
proof -
  have x: "0 < polar_x 2357136044 2546248239" and y: "0 < polar_x 3071714933 3626093760"
    and r: "polar_x 2357136044 2546248239 * polar_x 2357136044 2546248239 +
     polar_x 3071714933 3626093760 * polar_x 3071714933 3626093760 < 1"
    by (simp_all add: polar_x_def)
  have "0 < polar_x 2357136044 2546248239 * polar_x 2357136044 2546248239 +
     polar_x 3071714933 3626093760 * polar_x 3071714933 3626093760"
    using x y by (intro add_pos_pos mult_pos_pos)
  from exact_first_draw [OF seed0_outputs this r] x y show ?thesis
    by (auto intro: mult_pos_pos)
qed

lemma draw_seed7:
  "\<exists>v s. draw exact_ops (seeded_state exact_ops 7) = Some (v, s) \<and> v < 0 \<and>
      nd_saved_available (gaus s) \<and> nd_saved (gaus s) < 0 \<and> std_normal exact_ops (gaus s)"
proof -
  have x: "polar_x 327741615 976413892 < 0" and y: "polar_x 3349725721 1369975286 < 0"
    and r: "polar_x 327741615 976413892 * polar_x 327741615 976413892 +
     polar_x 3349725721 1369975286 * polar_x 3349725721 1369975286 < 1"
    by (simp_all add: polar_x_def)
  have "0 < polar_x 327741615 976413892 * polar_x 327741615 976413892 +
     polar_x 3349725721 1369975286 * polar_x 3349725721 1369975286"
    using x y by (intro add_pos_pos mult_neg_neg)
  from exact_first_draw [OF seed7_outputs this r] x y show ?thesis
    by (auto intro: mult_neg_pos)
qed

lemma draw_seed5489:
  "\<exists>v s. draw exact_ops (seeded_state exact_ops 5489) = Some (v, s) \<and> 0 < v \<and>
      nd_saved_available (gaus s) \<and> nd_saved (gaus s) < 0 \<and> std_normal exact_ops (gaus s)"
proof -
  have x: "polar_x 3499211612 581869302 < 0" and y: "0 < polar_x 3890346734 3586334585"
    and r: "polar_x 3499211612 581869302 * polar_x 3499211612 581869302 +
     polar_x 3890346734 3586334585 * polar_x 3890346734 3586334585 < 1"
    by (simp_all add: polar_x_def)
  have "0 < polar_x 3499211612 581869302 * polar_x 3499211612 581869302 +
     polar_x 3890346734 3586334585 * polar_x 3890346734 3586334585"
    using x y by (intro add_pos_pos mult_pos_pos mult_neg_neg)
  from exact_first_draw [OF seed5489_outputs this r] x y show ?thesis
    by (auto intro: mult_pos_pos mult_neg_pos)
qed

lemma seed_of_entry_0: "seed_of_entry 0 = 0"
  by (simp add: seed_of_entry_def)

lemma seed_of_entry_7: "seed_of_entry 7 = 7"
  by (simp add: seed_of_entry_def)

lemma local_0: "\<exists>v. 0 < v \<and> GetNormallyDistributedNumberForEntry_local exact_ops 0 = Some v"
  using draw_seed0 by (auto simp: GetNormallyDistributedNumberForEntry_local_def seed_of_entry_0)

lemma local_7: "\<exists>v. v < 0 \<and> GetNormallyDistributedNumberForEntry_local exact_ops 7 = Some v"
  using draw_seed7 by (auto simp: GetNormallyDistributedNumberForEntry_local_def seed_of_entry_7)

lemma without_reset_fresh:
  "GetNormallyDistributedNumberForEntry_without_reset fp None entry =
     (case draw fp (seeded_state fp (seed_of_entry entry)) of
        None \<Rightarrow> None | Some (v, s') \<Rightarrow> Some (v, Some s'))"
  by (simp add: GetNormallyDistributedNumberForEntry_without_reset_def seeded_state_reseed)

section \<open>Variants of the per-entry function\<close>

lemma seed_then_reset_same:
  "GetNormallyDistributedNumberForEntry_seed_then_reset fp tls entry =
   GetNormallyDistributedNumberForEntry fp tls entry"
proof -
  define s where "s = (case tls of None \<Rightarrow> seeded_state fp default_seed | Some s \<Rightarrow> s)"
  show ?thesis
    unfolding GetNormallyDistributedNumberForEntry_seed_then_reset_def
      GetNormallyDistributedNumberForEntry_def Let_def s_def [symmetric]
    by (cases s) simp
qed

lemma nd_reset_cold:
  assumes "\<not> nd_saved_available d"
  shows "nd_reset d = d"
  using assms by (simp add: nd_reset_def)

lemma without_reset_cold_same:
  assumes "tls_cold tls"
  shows "GetNormallyDistributedNumberForEntry_without_reset fp tls entry =
         GetNormallyDistributedNumberForEntry fp tls entry"
proof -
  define s where "s = (case tls of None \<Rightarrow> seeded_state fp default_seed | Some s \<Rightarrow> s)"
  have "\<not> nd_saved_available (gaus s)"
    using assms seeded_state_cold [of fp default_seed]
    by (simp add: s_def tls_cold_def split: option.splits)
  then have "s\<lparr>gaus := nd_reset (gaus s)\<rparr> = s"
    by (simp add: nd_reset_cold)
  then show ?thesis
    by (simp add: GetNormallyDistributedNumberForEntry_without_reset_def
        GetNormallyDistributedNumberForEntry_def Let_def flip: s_def)
qed

lemma without_reset_saved:
  assumes "nd_saved_available (gaus s)"
  shows "map_option fst (GetNormallyDistributedNumberForEntry_without_reset fp (Some s) entry) =
         Some (nd_scale fp (gaus s) (nd_saved (gaus s)))"
proof -
  have "nd_saved_available (gaus (s\<lparr>generator := mt19937_seed (seed_of_entry entry)\<rparr>))"
    using assms by simp
  from draw_hot [OF this] show ?thesis
    by (simp add: GetNormallyDistributedNumberForEntry_without_reset_def)
qed

lemma entry_leaves_saved:
  assumes "GetNormallyDistributedNumberForEntry fp tls entry = Some (v, tls')"
  shows "\<exists>s'. tls' = Some s' \<and> nd_saved_available (gaus s')"
proof -
  define s where "s = (case tls of None \<Rightarrow> seeded_state fp default_seed | Some s \<Rightarrow> s)"
  define s2 where
    "s2 = s\<lparr>gaus := nd_reset (gaus s), generator := mt19937_seed (seed_of_entry entry)\<rparr>"
  have c: "\<not> nd_saved_available (gaus s2)" by (simp add: s2_def nd_reset_def)
  from assms obtain s' where d: "draw fp s2 = Some (v, s')" and t: "tls' = Some s'"
    by (auto simp: GetNormallyDistributedNumberForEntry_def s_def s2_def Let_def
        split: option.splits)
  from draw_leaves_saved [OF d c] t show ?thesis by simp
qed

text \<open>Two draws in a row from a state with no saved value.\<close>

lemma two_draws_cold:
  assumes "\<not> nd_saved_available (gaus s)" "std_normal fp (gaus s)"
  shows "Option.bind (draw fp s) (\<lambda>(v, s'). map_option fst (draw fp s')) =
         Option.bind (draw fp (seeded_state fp e\<lparr>generator := generator s\<rparr>))
           (\<lambda>(v, s'). map_option fst (draw fp s'))"
proof -
  have c: "\<not> nd_saved_available (gaus (seeded_state fp e\<lparr>generator := generator s\<rparr>))"
    by (simp add: seeded_state_def normal_distribution_new_def)
  have p: "nd_mean (gaus s) = d_lit fp 0" "nd_stddev (gaus s) = d_lit fp 1"
    using assms(2) by (simp_all add: std_normal_def)
  show ?thesis
    unfolding draw_cold [OF assms(1)] draw_cold [OF c]
    by (cases "polar_loop fp (generator s)")
      (auto simp: Let_def draw_hot nd_scale_def p seeded_state_def normal_distribution_new_def)
qed

lemma without_reset_second_call:
  assumes "tls_ok fp t0" "tls_cold t0"
    and "GetNormallyDistributedNumberForEntry_without_reset fp t0 id1 = Some (v1, t1)"
  shows "map_option fst (GetNormallyDistributedNumberForEntry_without_reset fp t1 id2) =
         Option.bind (draw fp (seeded_state fp (seed_of_entry id1)))
           (\<lambda>(v, s). map_option fst (draw fp s))"
proof -
  define s where "s = (case t0 of None \<Rightarrow> seeded_state fp default_seed | Some s \<Rightarrow> s)"
  define s2 where "s2 = s\<lparr>generator := mt19937_seed (seed_of_entry id1)\<rparr>"
  have c: "\<not> nd_saved_available (gaus s2)"
    using assms(2) seeded_state_cold [of fp default_seed]
    by (simp add: s2_def s_def tls_cold_def split: option.splits)
  have k: "std_normal fp (gaus s2)"
    using assms(1) seeded_state_std [of fp default_seed]
    by (simp add: s2_def s_def tls_ok_def split: option.splits)
  from assms(3) obtain s1 where d: "draw fp s2 = Some (v1, s1)" and t1: "t1 = Some s1"
    by (auto simp: GetNormallyDistributedNumberForEntry_without_reset_def s_def s2_def Let_def
        split: option.splits)
  have hot: "nd_saved_available (gaus s1)"
    using draw_leaves_saved [OF d c] .
  have "map_option fst (GetNormallyDistributedNumberForEntry_without_reset fp t1 id2) =
        map_option fst (draw fp s1)"
    unfolding t1 without_reset_saved [OF hot] draw_hot [OF hot] by simp
  also have "\<dots> = Option.bind (draw fp s2) (\<lambda>(v, s'). map_option fst (draw fp s'))"
    by (simp add: d)
  also have "\<dots> = Option.bind (draw fp (seeded_state fp (seed_of_entry id1)\<lparr>generator := generator s2\<rparr>))
           (\<lambda>(v, s'). map_option fst (draw fp s'))"
    using two_draws_cold [OF c k] .
  also have "seeded_state fp (seed_of_entry id1)\<lparr>generator := generator s2\<rparr> =
      seeded_state fp (seed_of_entry id1)"
    by (simp add: s2_def seeded_state_def)
  finally show ?thesis .
qed

lemma tls_cold_None: "tls_cold None"
  by (simp add: tls_cold_def)

section \<open>First and later draws of the free-running function\<close>

lemma free_first:
  "GetNormallyDistributedNumber fp rd None =
     (case draw fp (seeded_state fp rd) of None \<Rightarrow> None | Some (v, s') \<Rightarrow> Some (v, Some s'))"
  by (simp add: GetNormallyDistributedNumber_def)

lemma free_saved:
  assumes "nd_saved_available (gaus s)" "std_normal exact_ops (gaus s)"
  shows "\<exists>s'. GetNormallyDistributedNumber exact_ops rd (Some s) = Some (nd_saved (gaus s), Some s')"
  by (simp add: GetNormallyDistributedNumber_def draw_hot [OF assms(1)] exact_scale [OF assms(2)])

section \<open>The per-entry function is a function of the entry\<close>

text \<open>
  Claim C1. The value \<^verbatim>\<open>GetNormallyDistributedNumberForEntry\<close> returns for an entry
  is the same whatever the thread's \<^verbatim>\<open>thread_local\<close> engine and distribution hold when
  the call starts (uninitialised, or left behind by any earlier calls), and so is the
  list of values of a whole pass over the same entries. This holds for every
  floating-point arithmetic \<open>fp\<close>; a call that does not return does not return from any
  state.
\<close>

theorem entry_value_depends_only_on_entry:
  assumes "tls_ok fp t1" "tls_ok fp t2"
  shows "map_option fst (GetNormallyDistributedNumberForEntry fp t1 entry) =
         map_option fst (GetNormallyDistributedNumberForEntry fp t2 entry) \<and>
         map_option fst (for_each_entry (GetNormallyDistributedNumberForEntry fp) t1 ids) =
         map_option fst (for_each_entry (GetNormallyDistributedNumberForEntry fp) t2 ids)"
  using assms by (simp add: entry_value_local for_each_entry_results)

theorem entry_value_depends_only_on_entry_witness:
  "tls_ok exact_ops None \<and>
   tls_ok exact_ops (Some \<lparr>generator = mt19937_seed 42,
      gaus = \<lparr>nd_mean = 0, nd_stddev = 1, nd_saved = 3, nd_saved_available = True\<rparr>\<rparr>) \<and>
   (\<exists>v. v < 0 \<and>
     map_option fst (GetNormallyDistributedNumberForEntry exact_ops None 7) = Some v \<and>
     map_option fst (GetNormallyDistributedNumberForEntry exact_ops
       (Some \<lparr>generator = mt19937_seed 42,
          gaus = \<lparr>nd_mean = 0, nd_stddev = 1, nd_saved = 3, nd_saved_available = True\<rparr>\<rparr>) 7) = Some v)"
proof -
  let ?t = "Some \<lparr>generator = mt19937_seed 42,
      gaus = \<lparr>nd_mean = 0, nd_stddev = 1, nd_saved = 3, nd_saved_available = True\<rparr>\<rparr>"
  have a: "tls_ok exact_ops None" by (simp add: tls_ok_def)
  have b: "tls_ok exact_ops ?t" by (simp add: tls_ok_def std_normal_def exact_ops_sel)
  from local_7 obtain v where v: "v < 0"
    "GetNormallyDistributedNumberForEntry_local exact_ops 7 = Some v" by blast
  from entry_returns [OF a v(2)]
  have h1: "map_option fst (GetNormallyDistributedNumberForEntry exact_ops None 7) = Some v" by auto
  have h2: "map_option fst (GetNormallyDistributedNumberForEntry exact_ops ?t 7) = Some v"
    using entry_value_depends_only_on_entry [OF a b, of 7 "[]", THEN conjunct1] h1 by (rule subst)
  from a b v(1) h1 h2 show ?thesis by blast
qed

text \<open>
  Claim C2. The two versions of \<^verbatim>\<open>GetNormallyDistributedNumberForEntry\<close> return the
  same value for every entry: the one that resets and reseeds its \<^verbatim>\<open>thread_local\<close>
  objects, from any state of these, and the one that constructs a new engine from the
  entry and a new distribution.
\<close>

theorem reseed_in_place_equals_construct_fresh:
  assumes "tls_ok fp tls"
  shows "map_option fst (GetNormallyDistributedNumberForEntry fp tls entry) =
         GetNormallyDistributedNumberForEntry_local fp entry"
  using assms by (rule entry_value_local)

theorem reseed_in_place_equals_construct_fresh_witness:
  "tls_ok exact_ops None \<and>
   (\<exists>v. 0 < v \<and>
      map_option fst (GetNormallyDistributedNumberForEntry exact_ops None 0) = Some v \<and>
      GetNormallyDistributedNumberForEntry_local exact_ops 0 = Some v)"
proof -
  have a: "tls_ok exact_ops None" by (simp add: tls_ok_def)
  from local_0 obtain v where v: "0 < v"
    "GetNormallyDistributedNumberForEntry_local exact_ops 0 = Some v" by blast
  have "map_option fst (GetNormallyDistributedNumberForEntry exact_ops None 0) = Some v"
    using reseed_in_place_equals_construct_fresh [OF a, of 0] v(2) by simp
  with a v show ?thesis by blast
qed

text \<open>
  Claim C3. No leakage from one entry to the next: after a call for \<open>id1\<close> has
  returned on a thread, the call for \<open>id2\<close> on the same thread (the objects as the first
  call left them) returns the value that a thread with uninitialised objects returns
  for \<open>id2\<close>.
\<close>

theorem no_cross_entry_leakage:
  assumes "tls_ok fp t0"
    and "GetNormallyDistributedNumberForEntry fp t0 id1 = Some (v1, t1)"
  shows "map_option fst (GetNormallyDistributedNumberForEntry fp t1 id2) =
         map_option fst (GetNormallyDistributedNumberForEntry fp None id2)"
proof -
  have "tls_ok fp t1" using entry_keeps_ok [OF assms(2) assms(1)] .
  moreover have "tls_ok fp None" by (simp add: tls_ok_def)
  ultimately show ?thesis by (simp add: entry_value_local)
qed

theorem no_cross_entry_leakage_witness:
  "tls_ok exact_ops None \<and>
   (\<exists>v1 t1 v. GetNormallyDistributedNumberForEntry exact_ops None 0 = Some (v1, t1) \<and>
      map_option fst (GetNormallyDistributedNumberForEntry exact_ops t1 7) = Some v \<and>
      map_option fst (GetNormallyDistributedNumberForEntry exact_ops None 7) = Some v)"
proof -
  have a: "tls_ok exact_ops None" by (simp add: tls_ok_def)
  from local_0 entry_returns [OF a] obtain v1 t1 where
    c: "GetNormallyDistributedNumberForEntry exact_ops None 0 = Some (v1, t1)" by blast
  from local_7 entry_returns [OF a] obtain v t where
    d: "GetNormallyDistributedNumberForEntry exact_ops None 7 = Some (v, t)" by blast
  from no_cross_entry_leakage [OF a c, of 7] d
  have "map_option fst (GetNormallyDistributedNumberForEntry exact_ops t1 7) = Some v" by simp
  with a c d show ?thesis by auto
qed

text \<open>
  Claim C4. The order in which the entries reach the threads does not matter: two runs
  over the same entries, split among any number of threads in any order, produce the
  same (entry, value) pairs up to their order, and an entry has the same value in
  both.
\<close>

theorem entry_values_order_independent:
  assumes "mset (entries_of ws') = mset (entries_of ws)"
    and "\<forall>w \<in> set ws. tls_ok fp (fst w)" "\<forall>w \<in> set ws'. tls_ok fp (fst w)"
    and "run_workers (GetNormallyDistributedNumberForEntry fp) ws = Some rs"
    and "run_workers (GetNormallyDistributedNumberForEntry fp) ws' = Some rs'"
  shows "mset rs' = mset rs \<and> (\<forall>i v v'. (i, v) \<in> set rs \<and> (i, v') \<in> set rs' \<longrightarrow> v = v')"
proof -
  let ?f = "\<lambda>i. (i, the (GetNormallyDistributedNumberForEntry_local fp i))"
  have rs: "rs = map ?f (entries_of ws)" and rs': "rs' = map ?f (entries_of ws')"
    using run_workers_values assms by blast+
  have "mset rs' = image_mset ?f (mset (entries_of ws'))" by (simp add: rs')
  also have "\<dots> = mset rs" by (simp add: rs assms(1))
  finally have "mset rs' = mset rs" .
  moreover have "v = v'" if "(i, v) \<in> set rs" "(i, v') \<in> set rs'" for i v v'
    using that by (auto simp: rs rs')
  ultimately show ?thesis by blast
qed

theorem entry_values_order_independent_witness:
  "mset (entries_of [(None, [7]), (None :: real rng_state option, [0])]) =
     mset (entries_of [(None :: real rng_state option, [0, 7])]) \<and>
   tls_ok exact_ops None \<and>
   (\<exists>rs rs'.
      run_workers (GetNormallyDistributedNumberForEntry exact_ops) [(None, [0, 7])] = Some rs \<and>
      run_workers (GetNormallyDistributedNumberForEntry exact_ops) [(None, [7]), (None, [0])] = Some rs' \<and>
      mset rs' = mset rs \<and> rs' = rev rs)"
proof -
  have a: "tls_ok exact_ops None" by (simp add: tls_ok_def)
  have e: "mset (entries_of [(None, [7]), (None :: real rng_state option, [0])]) =
     mset (entries_of [(None :: real rng_state option, [0, 7])])"
    by (simp add: entries_of_def)
  from local_0 obtain v0 where v0: "GetNormallyDistributedNumberForEntry_local exact_ops 0 = Some v0"
    by blast
  from local_7 obtain v7 where v7: "GetNormallyDistributedNumberForEntry_local exact_ops 7 = Some v7"
    by blast
  have f: "map_option fst (for_each_entry (GetNormallyDistributedNumberForEntry exact_ops) None ids) =
      those (map (\<lambda>i. map_option (Pair i) (GetNormallyDistributedNumberForEntry_local exact_ops i)) ids)"
    for ids
    using for_each_entry_results [OF a] .
  from f [of "[0, 7]"] v0 v7 obtain t where
    "for_each_entry (GetNormallyDistributedNumberForEntry exact_ops) None [0, 7] = Some ([(0, v0), (7, v7)], t)"
    by auto
  then have r1: "run_workers (GetNormallyDistributedNumberForEntry exact_ops) [(None, [0, 7])] =
      Some [(0, v0), (7, v7)]"
    by simp
  from f [of "[7]"] v7 obtain t7 where
    "for_each_entry (GetNormallyDistributedNumberForEntry exact_ops) None [7] = Some ([(7, v7)], t7)"
    by auto
  moreover from f [of "[0]"] v0 obtain t0 where
    "for_each_entry (GetNormallyDistributedNumberForEntry exact_ops) None [0] = Some ([(0, v0)], t0)"
    by auto
  ultimately have r2: "run_workers (GetNormallyDistributedNumberForEntry exact_ops)
      [(None, [7]), (None, [0])] = Some [(7, v7), (0, v0)]"
    by simp
  have "mset [(7 :: u64, v7), (0, v0)] = mset [(0, v0), (7, v7)]"
    using entry_values_order_independent [OF e _ _ r1 r2] a by simp
  with e a r1 r2 show ?thesis by simp
qed

section \<open>What the call to reset is for\<close>

text \<open>
  Claim C5 says that the function is correct only if \<^verbatim>\<open>reset\<close> is called before
  \<^verbatim>\<open>seed\<close>, on every call. As stated this fails. In exact arithmetic, for entry 7:
  with \<^verbatim>\<open>seed\<close> called before \<^verbatim>\<open>reset\<close>, on a thread whose distribution holds a saved
  value, the result is the result of the source's function; and on a thread's first
  call the function without \<^verbatim>\<open>reset\<close> returns the result of the source's function,
  which is the value of entry 7.
\<close>

theorem reset_before_seed_on_every_call_counterexample:
  "GetNormallyDistributedNumberForEntry_seed_then_reset exact_ops
     (Some \<lparr>generator = mt19937_seed 42,
        gaus = \<lparr>nd_mean = 0, nd_stddev = 1, nd_saved = 3, nd_saved_available = True\<rparr>\<rparr>) 7 =
   GetNormallyDistributedNumberForEntry exact_ops
     (Some \<lparr>generator = mt19937_seed 42,
        gaus = \<lparr>nd_mean = 0, nd_stddev = 1, nd_saved = 3, nd_saved_available = True\<rparr>\<rparr>) 7 \<and>
   GetNormallyDistributedNumberForEntry_without_reset exact_ops None 7 =
   GetNormallyDistributedNumberForEntry exact_ops None 7 \<and>
   map_option fst (GetNormallyDistributedNumberForEntry exact_ops None 7) =
   GetNormallyDistributedNumberForEntry_local exact_ops 7 \<and>
   GetNormallyDistributedNumberForEntry_local exact_ops 7 \<noteq> None"
proof -
  have a: "tls_ok exact_ops None" by (simp add: tls_ok_def)
  from local_7 have "GetNormallyDistributedNumberForEntry_local exact_ops 7 \<noteq> None" by auto
  with seed_then_reset_same [of exact_ops _ 7]
    without_reset_cold_same [OF tls_cold_None, of exact_ops 7]
    entry_value_local [OF a, of 7]
  show ?thesis by simp
qed

text \<open>
  Claim C5, amended. The saved value of the distribution has to be cleared between
  the thread's previous draw and the next one; the order of \<^verbatim>\<open>reset\<close> and \<^verbatim>\<open>seed\<close> is
  immaterial, and on a thread that holds no saved value the reset changes nothing.
  For every arithmetic \<open>fp\<close>:
  \<^item> the function with \<^verbatim>\<open>seed\<close> before \<^verbatim>\<open>reset\<close> is the source's function;
  \<^item> on a thread with no saved value, the function without \<^verbatim>\<open>reset\<close> is the source's
    function;
  \<^item> every call of the source's function that returns leaves a saved value behind,
    and the function without \<^verbatim>\<open>reset\<close>, called next for any entry \<open>id2\<close>, returns that
    saved value, scaled, whatever \<open>id2\<close> is;
  \<^item> if \<^verbatim>\<open>reset\<close> is left out on all calls, the call that follows a call for \<open>entry\<close>
    on a thread with no saved value returns for any \<open>id2\<close> the second draw of an
    engine seeded with \<open>entry\<close>.
  This is for the polar sampler of \<^verbatim>\<open>std::normal_distribution\<close>, which saves one value
  between draws.
\<close>

theorem reset_is_for_the_saved_value:
  "GetNormallyDistributedNumberForEntry_seed_then_reset fp tls entry =
     GetNormallyDistributedNumberForEntry fp tls entry \<and>
   (tls_cold tls \<longrightarrow>
      GetNormallyDistributedNumberForEntry_without_reset fp tls entry =
        GetNormallyDistributedNumberForEntry fp tls entry) \<and>
   (GetNormallyDistributedNumberForEntry fp tls entry = Some (v, tls') \<longrightarrow>
      (\<exists>s'. tls' = Some s' \<and> nd_saved_available (gaus s') \<and>
         map_option fst (GetNormallyDistributedNumberForEntry_without_reset fp tls' id2) =
           Some (nd_scale fp (gaus s') (nd_saved (gaus s'))))) \<and>
   (tls_ok fp tls \<and> tls_cold tls \<and>
    GetNormallyDistributedNumberForEntry_without_reset fp tls entry = Some (v, tls') \<longrightarrow>
      map_option fst (GetNormallyDistributedNumberForEntry_without_reset fp tls' id2) =
        Option.bind (draw fp (seeded_state fp (seed_of_entry entry)))
          (\<lambda>(v, s). map_option fst (draw fp s)))"
proof (intro conjI impI)
  show "GetNormallyDistributedNumberForEntry_seed_then_reset fp tls entry =
     GetNormallyDistributedNumberForEntry fp tls entry"
    by (rule seed_then_reset_same)
next
  assume "tls_cold tls"
  then show "GetNormallyDistributedNumberForEntry_without_reset fp tls entry =
        GetNormallyDistributedNumberForEntry fp tls entry"
    by (rule without_reset_cold_same)
next
  assume "GetNormallyDistributedNumberForEntry fp tls entry = Some (v, tls')"
  from entry_leaves_saved [OF this] obtain s' where
    s: "tls' = Some s'" "nd_saved_available (gaus s')" by blast
  with without_reset_saved [OF s(2), of fp id2]
  show "\<exists>s'. tls' = Some s' \<and> nd_saved_available (gaus s') \<and>
         map_option fst (GetNormallyDistributedNumberForEntry_without_reset fp tls' id2) =
           Some (nd_scale fp (gaus s') (nd_saved (gaus s')))"
    by blast
next
  assume "tls_ok fp tls \<and> tls_cold tls \<and>
    GetNormallyDistributedNumberForEntry_without_reset fp tls entry = Some (v, tls')"
  then have "tls_ok fp tls" "tls_cold tls"
    "GetNormallyDistributedNumberForEntry_without_reset fp tls entry = Some (v, tls')"
    by simp_all
  then show "map_option fst (GetNormallyDistributedNumberForEntry_without_reset fp tls' id2) =
        Option.bind (draw fp (seeded_state fp (seed_of_entry entry)))
          (\<lambda>(v, s). map_option fst (draw fp s))"
    by (rule without_reset_second_call)
qed

text \<open>
  In exact arithmetic, on a thread that has processed entry 0: the function without
  the reset returns for entry 7 the value saved at entry 0, which is not the value of
  entry 7.
\<close>

theorem reset_is_for_the_saved_value_witness:
  "tls_ok exact_ops None \<and> tls_cold (None :: real rng_state option) \<and>
   (\<exists>v t s. GetNormallyDistributedNumberForEntry exact_ops None 0 = Some (v, t) \<and>
      GetNormallyDistributedNumberForEntry_without_reset exact_ops None 0 = Some (v, t) \<and>
      t = Some s \<and> nd_saved_available (gaus s) \<and>
      map_option fst (GetNormallyDistributedNumberForEntry_without_reset exact_ops t 7) =
        Some (nd_scale exact_ops (gaus s) (nd_saved (gaus s))) \<and>
      map_option fst (GetNormallyDistributedNumberForEntry_without_reset exact_ops t 7) =
        Option.bind (draw exact_ops (seeded_state exact_ops (seed_of_entry 0)))
          (\<lambda>(v, s). map_option fst (draw exact_ops s)) \<and>
      map_option fst (GetNormallyDistributedNumberForEntry_without_reset exact_ops t 7) \<noteq>
        GetNormallyDistributedNumberForEntry_local exact_ops 7)"
proof -
  have a: "tls_ok exact_ops None" by (simp add: tls_ok_def)
  note c = tls_cold_None [where ?'a = real]
  from draw_seed0 obtain v s where
    d: "draw exact_ops (seeded_state exact_ops 0) = Some (v, s)" and
    h: "nd_saved_available (gaus s)" "0 < nd_saved (gaus s)" "std_normal exact_ops (gaus s)"
    by blast
  have w: "GetNormallyDistributedNumberForEntry_without_reset exact_ops None 0 = Some (v, Some s)"
    by (simp add: without_reset_fresh seed_of_entry_0 d)
  note t = reset_is_for_the_saved_value [of exact_ops None 0 v "Some s" 7]
  from t c w have e: "GetNormallyDistributedNumberForEntry exact_ops None 0 = Some (v, Some s)"
    by simp
  from t e have r: "map_option fst (GetNormallyDistributedNumberForEntry_without_reset exact_ops (Some s) 7) =
        Some (nd_scale exact_ops (gaus s) (nd_saved (gaus s)))"
    by simp
  from t a c w have b: "map_option fst (GetNormallyDistributedNumberForEntry_without_reset exact_ops (Some s) 7) =
        Option.bind (draw exact_ops (seeded_state exact_ops (seed_of_entry 0)))
          (\<lambda>(v, s). map_option fst (draw exact_ops s))"
    by blast
  from local_7 obtain u where u: "u < 0"
    "GetNormallyDistributedNumberForEntry_local exact_ops 7 = Some u" by blast
  have n: "map_option fst (GetNormallyDistributedNumberForEntry_without_reset exact_ops (Some s) 7) \<noteq>
        GetNormallyDistributedNumberForEntry_local exact_ops 7"
    unfolding r u(2) exact_scale [OF h(3)] using h(2) u(1) by simp
  from e w h(1) r b n have "\<exists>v t s. GetNormallyDistributedNumberForEntry exact_ops None 0 = Some (v, t) \<and>
      GetNormallyDistributedNumberForEntry_without_reset exact_ops None 0 = Some (v, t) \<and>
      t = Some s \<and> nd_saved_available (gaus s) \<and>
      map_option fst (GetNormallyDistributedNumberForEntry_without_reset exact_ops t 7) =
        Some (nd_scale exact_ops (gaus s) (nd_saved (gaus s))) \<and>
      map_option fst (GetNormallyDistributedNumberForEntry_without_reset exact_ops t 7) =
        Option.bind (draw exact_ops (seeded_state exact_ops (seed_of_entry 0)))
          (\<lambda>(v, s). map_option fst (draw exact_ops s)) \<and>
      map_option fst (GetNormallyDistributedNumberForEntry_without_reset exact_ops t 7) \<noteq>
        GetNormallyDistributedNumberForEntry_local exact_ops 7"
    by (intro exI [of _ v] exI [of _ "Some s"] exI [of _ s]) simp
  with a c show ?thesis by simp
qed

section \<open>The free-running thread-local generator\<close>

text \<open>
  Claim C7. \<^verbatim>\<open>GetNormallyDistributedNumber\<close> is not reproducible: the value an entry
  gets is not a function of the entry. In exact arithmetic, two runs over the entry 0
  alone give it different values when the thread's random device returned 0 in one
  run and 7 in the other; and with the same number 5489 from the device in both, two
  runs over the entries 0 and 1 give entry 0 different values when the thread
  processes it first in one run and second in the other.
\<close>

theorem free_running_generator_not_reproducible:
  "map_option fst (for_each_entry (\<lambda>tls entry. GetNormallyDistributedNumber exact_ops 0 tls) None [0]) \<noteq>
   map_option fst (for_each_entry (\<lambda>tls entry. GetNormallyDistributedNumber exact_ops 7 tls) None [0]) \<and>
   (\<exists>v w. v \<noteq> w \<and>
      map_option fst (for_each_entry (\<lambda>tls entry. GetNormallyDistributedNumber exact_ops 5489 tls)
        None [0, 1]) = Some [(0, v), (1, w)] \<and>
      map_option fst (for_each_entry (\<lambda>tls entry. GetNormallyDistributedNumber exact_ops 5489 tls)
        None [1, 0]) = Some [(1, v), (0, w)])"
proof -
  from draw_seed0 obtain v0 s0 where
    d0: "draw exact_ops (seeded_state exact_ops 0) = Some (v0, s0)" "0 < v0" by blast
  from draw_seed7 obtain v7 s7 where
    d7: "draw exact_ops (seeded_state exact_ops 7) = Some (v7, s7)" "v7 < 0" by blast
  have e0: "map_option fst (for_each_entry (\<lambda>tls entry. GetNormallyDistributedNumber exact_ops 0 tls) None [0])
      = Some [(0, v0)]"
    by (simp add: free_first d0)
  have e7: "map_option fst (for_each_entry (\<lambda>tls entry. GetNormallyDistributedNumber exact_ops 7 tls) None [0])
      = Some [(0, v7)]"
    by (simp add: free_first d7)
  have one: "map_option fst (for_each_entry (\<lambda>tls entry. GetNormallyDistributedNumber exact_ops 0 tls) None [0]) \<noteq>
   map_option fst (for_each_entry (\<lambda>tls entry. GetNormallyDistributedNumber exact_ops 7 tls) None [0])"
    unfolding e0 e7 using d0(2) d7(2) by simp
  from draw_seed5489 obtain v s where
    d: "draw exact_ops (seeded_state exact_ops 5489) = Some (v, s)" "0 < v" and
    h: "nd_saved_available (gaus s)" "nd_saved (gaus s) < 0" "std_normal exact_ops (gaus s)"
    by blast
  from free_saved [OF h(1) h(3), of 5489] obtain s' where
    n: "GetNormallyDistributedNumber exact_ops 5489 (Some s) = Some (nd_saved (gaus s), Some s')"
    by blast
  have "map_option fst (for_each_entry (\<lambda>tls entry. GetNormallyDistributedNumber exact_ops 5489 tls)
        None [a, b]) = Some [(a, v), (b, nd_saved (gaus s))]" for a b
    by (simp add: free_first d n)
  with d(2) h(2) have "\<exists>v w. v \<noteq> w \<and>
      map_option fst (for_each_entry (\<lambda>tls entry. GetNormallyDistributedNumber exact_ops 5489 tls)
        None [0, 1]) = Some [(0, v), (1, w)] \<and>
      map_option fst (for_each_entry (\<lambda>tls entry. GetNormallyDistributedNumber exact_ops 5489 tls)
        None [1, 0]) = Some [(1, v), (0, w)]"
    by (intro exI [of _ v] exI [of _ "nd_saved (gaus s)"]) simp
  with one show ?thesis by blast
qed

section \<open>The seed is the entry modulo \<open>2^32\<close>\<close>

text \<open>
  Claim C9. The entry is a 64-bit number and the seed is its low 32 bits: two entries
  that are congruent modulo \<open>2^32\<close> get the same result from both versions of
  \<^verbatim>\<open>GetNormallyDistributedNumberForEntry\<close>, so an entry from \<open>2^32\<close> on collides with
  a smaller one.
\<close>

theorem entries_congruent_mod_2_32_collide:
  assumes "unat e1 mod 2 ^ 32 = unat e2 mod 2 ^ 32"
  shows "GetNormallyDistributedNumberForEntry fp tls e1 =
           GetNormallyDistributedNumberForEntry fp tls e2 \<and>
         GetNormallyDistributedNumberForEntry_local fp e1 =
           GetNormallyDistributedNumberForEntry_local fp e2"
  using assms [folded seed_of_entry_mod]
  by (simp add: GetNormallyDistributedNumberForEntry_def
      GetNormallyDistributedNumberForEntry_local_def)

theorem entries_congruent_mod_2_32_collide_witness:
  "unat (4294967301 :: u64) mod 2 ^ 32 = unat (5 :: u64) mod 2 ^ 32 \<and>
   (4294967301 :: u64) \<noteq> 5 \<and>
   GetNormallyDistributedNumberForEntry exact_ops None 4294967301 =
     GetNormallyDistributedNumberForEntry exact_ops None 5 \<and>
   GetNormallyDistributedNumberForEntry_local exact_ops 4294967301 =
     GetNormallyDistributedNumberForEntry_local exact_ops 5"
proof -
  have "unat (4294967301 :: u64) mod 2 ^ 32 = unat (5 :: u64) mod 2 ^ 32" by simp
  moreover have "(4294967301 :: u64) \<noteq> 5" by simp
  ultimately show ?thesis
    using entries_congruent_mod_2_32_collide [of 4294967301 5 exact_ops None] by blast
qed

section \<open>The first version of the thread-local function\<close>

text \<open>
  Claim C10. \<^verbatim>\<open>GetThreadSafeRNG\<close> does not read its \<^verbatim>\<open>slot\<close> argument: called on the
  same thread-local objects (and the same number from the random device, should the
  objects still be uninitialised), it returns the same value and leaves the same
  objects behind for any two slot numbers.
\<close>

theorem GetThreadSafeRNG_ignores_slot:
  "GetThreadSafeRNG fp rd slot1 tls = GetThreadSafeRNG fp rd slot2 tls"
  by (simp add: GetThreadSafeRNG_def)

end
